theory Spec2Isabelle
  imports Complex_Main "HOL-Library.Word"
begin

section \<open>Conventions of the embedding\<close>

text \<open>
  The development embeds the decision logic of the face enrollment and verification
  backend: \<^verbatim>\<open>app/face_processor.py\<close> (frame validation, cosine similarity, verification),
  \<^verbatim>\<open>app/storage.py\<close> (the enrollment store) and the two endpoints \<^verbatim>\<open>enroll\<close> and
  \<^verbatim>\<open>verify\<close> of \<^verbatim>\<open>app/main.py\<close>.

  \<^item> A float of NumPy or Python is a value of the type \<open>fp\<close>: a finite real, an
    infinity or NaN. The arithmetic of NumPy on such values (conversion to
    \<^verbatim>\<open>float32\<close>, norm, addition of \<^verbatim>\<open>1e-8\<close>, division, dot product) is library code with
    its own rounding and overflow; each operation is a field of the record \<open>env\<close>, and
    nothing is assumed of it except where a theorem says so.
  \<^item> The face ratio, a quotient of two integers, and the literal \<^verbatim>\<open>0.05\<close> it is compared
    with are taken as exact rationals.
  \<^item> A Python exception is a value: \<open>Inl msg\<close>, where \<open>msg\<close> is what \<^verbatim>\<open>str(e)\<close> gives.
    The text of exceptions raised inside libraries is abbreviated.
  \<^item> The image decoder, the face extractor, the base64 decoder and the float
    formatters are library code; they are fields of the record \<open>env\<close> too.
  \<^item> \<^verbatim>\<open>datetime.utcnow().isoformat()\<close> is passed in as a string.
\<close>

section \<open>Strings\<close>

text \<open>\<^verbatim>\<open>str(n)\<close> for a non-negative integer, as the f-strings of the source print it.\<close>

fun str_nat :: "nat \<Rightarrow> string" where
  "str_nat n =
     (if n < 10 then [''0123456789'' ! n]
      else str_nat (n div 10) @ [''0123456789'' ! (n mod 10)])"

declare str_nat.simps [simp del]

text \<open>\<^verbatim>\<open>sep.join(xs)\<close>.\<close>

fun join :: "string \<Rightarrow> string list \<Rightarrow> string" where
  "join sep [] = []"
| "join sep [x] = x"
| "join sep (x # y # ys) = x @ sep @ join sep (y # ys)"

text \<open>
  \<^verbatim>\<open>s.split(',')[1]\<close> for a string that contains a comma: the text between the first
  comma and the next one (or the end).
\<close>

definition split_comma_1 :: "string \<Rightarrow> string" where
  "split_comma_1 s = takeWhile (\<lambda>c. c \<noteq> CHR '','') (tl (dropWhile (\<lambda>c. c \<noteq> CHR '','') s))"

section \<open>Floating-point values\<close>

text \<open>
  A float: finite, plus or minus infinity, or NaN. The two zeros of IEEE 754 are the one
  value \<open>Finite 0\<close>.
\<close>

datatype fp = Finite real | PosInf | NegInf | NaN

text \<open>\<^verbatim>\<open>x <= y\<close> on floats: false as soon as one of the two is NaN.\<close>

fun fle :: "fp \<Rightarrow> fp \<Rightarrow> bool" where
  "fle NaN y = False"
| "fle x NaN = False"
| "fle NegInf y = True"
| "fle x PosInf = True"
| "fle (Finite a) (Finite b) = (a \<le> b)"
| "fle PosInf y = False"
| "fle x NegInf = False"

text \<open>\<^verbatim>\<open>np.maximum\<close> of two floats: NaN as soon as one of the two is NaN.\<close>

definition fmax :: "fp \<Rightarrow> fp \<Rightarrow> fp" where
  "fmax x y = (if x = NaN \<or> y = NaN then NaN else if fle x y then y else x)"

section \<open>Library code\<close>

type_synonym bytes = "8 word list"

text \<open>A decoded image: \<^verbatim>\<open>img.shape[:2]\<close> is \<open>(height, width)\<close>.\<close>

record image =
  img_height :: nat
  img_width :: nat
  img_pixels :: "8 word list"

text \<open>
  One entry of the list that \<^verbatim>\<open>DeepFace.represent\<close> returns: a dictionary with the key
  \<^verbatim>\<open>embedding\<close> (absent: \<open>None\<close>, and the lookup raises \<^verbatim>\<open>KeyError\<close>) and an
  optional key \<^verbatim>\<open>facial_area\<close>, itself a dictionary read with \<^verbatim>\<open>get(key, 0)\<close>.
\<close>

record face_data =
  fd_embedding :: "fp list option"
  fd_facial_area :: "(string \<rightharpoonup> int) option"

datatype deepface_result = NotAList | FaceList "face_data list"

text \<open>
  The library code that the backend calls. The last six fields are the floating-point
  operations: \<open>float32\<close> is the conversion of one element by
  \<^verbatim>\<open>np.array(..., dtype=np.float32)\<close>, \<open>np_norm\<close> is \<^verbatim>\<open>np.linalg.norm\<close> of a vector,
  \<open>np_add_eps x\<close> is \<^verbatim>\<open>x + 1e-8\<close>, \<open>np_divide x c\<close> is \<^verbatim>\<open>x / c\<close> for one element, \<open>np_vdot\<close> is the
  sum of products that \<^verbatim>\<open>np.dot\<close> computes for two vectors of one length, and
  \<open>fmt4f_sim\<close> formats a similarity with \<^verbatim>\<open>:.4f\<close>.
\<close>

record env =
  imdecode :: "bytes \<Rightarrow> string + image option"
  represent :: "image \<Rightarrow> string + deepface_result"
  b64decode :: "string \<Rightarrow> string + bytes"
  fmt4f :: "real \<Rightarrow> string"
  str_float :: "real \<Rightarrow> string"
  float32 :: "fp \<Rightarrow> fp"
  np_norm :: "fp list \<Rightarrow> fp"
  np_add_eps :: "fp \<Rightarrow> fp"
  np_divide :: "fp \<Rightarrow> fp \<Rightarrow> fp"
  np_vdot :: "fp list \<Rightarrow> fp list \<Rightarrow> fp"
  fmt4f_sim :: "fp \<Rightarrow> string"

section \<open>Similarity engine: \<^verbatim>\<open>FaceProcessor._cosine_similarity\<close>\<close>

text \<open>A vector divided by a scalar, element by element.\<close>

definition vec_div :: "env \<Rightarrow> fp list \<Rightarrow> fp \<Rightarrow> fp list" where
  "vec_div env v c = map (\<lambda>x. np_divide env x c) v"

text \<open>\<^verbatim>\<open>np.dot\<close> of two vectors; shapes that differ raise \<^verbatim>\<open>ValueError\<close>.\<close>

definition np_dot :: "env \<Rightarrow> fp list \<Rightarrow> fp list \<Rightarrow> string + fp" where
  "np_dot env u v =
     (if length u = length v then Inr (np_vdot env u v)
      else Inl ''shapes not aligned'')"

text \<open>
  \<^verbatim>\<open>np.dot\<close> of a matrix (a list of rows) and a vector: one product per row. The
  operations of NumPy on a matrix are taken row by row, with the operations on vectors.
\<close>

definition np_dot_mat :: "env \<Rightarrow> fp list list \<Rightarrow> fp list \<Rightarrow> string + fp list" where
  "np_dot_mat env m v =
     (if list_all (\<lambda>row. length row = length v) m
      then Inr (map (\<lambda>row. np_vdot env row v) m)
      else Inl ''shapes not aligned'')"

text \<open>The second argument has \<^verbatim>\<open>ndim == 1\<close> (\<open>Vec\<close>) or is an \<open>(N, D)\<close> matrix (\<open>Mat\<close>).\<close>

datatype ndarray = Vec "fp list" | Mat "fp list list"

datatype similarity = Scalar fp | Vector "fp list"

definition cosine_similarity :: "env \<Rightarrow> fp list \<Rightarrow> ndarray \<Rightarrow> string + similarity" where
  "cosine_similarity env a b =
     (let a_norm = vec_div env a (np_add_eps env (np_norm env a)) in
      case b of
        Vec bv \<Rightarrow>
          (let b_norm = vec_div env bv (np_add_eps env (np_norm env bv)) in
           case np_dot env a_norm b_norm of
             Inl e \<Rightarrow> Inl e
           | Inr similarity \<Rightarrow> Inr (Scalar similarity))
      | Mat rows \<Rightarrow>
          (let b_norm = map (\<lambda>row. vec_div env row (np_add_eps env (np_norm env row))) rows in
           case np_dot_mat env b_norm a_norm of
             Inl e \<Rightarrow> Inl e
           | Inr similarities \<Rightarrow> Inr (Vector similarities)))"

text \<open>
  \<^verbatim>\<open>np.max\<close>: an empty array raises \<^verbatim>\<open>ValueError\<close>; a NaN among the elements makes the
  result NaN.
\<close>

fun np_max :: "similarity \<Rightarrow> string + fp" where
  "np_max (Scalar s) = Inr s"
| "np_max (Vector []) = Inl ''zero-size array to reduction operation maximum which has no identity''"
| "np_max (Vector (x # xs)) = Inr (fold fmax xs x)"

text \<open>
  The cosine similarity in the words of the specification: the query is normalised by
  its Euclidean norm plus the epsilon, the reference is normalised the same way, and
  the result is the dot product of the two normalised vectors.
\<close>

definition spec_normalize :: "env \<Rightarrow> fp list \<Rightarrow> fp list" where
  "spec_normalize env v = map (\<lambda>x. np_divide env x (np_add_eps env (np_norm env v))) v"

definition spec_cosine :: "env \<Rightarrow> fp list \<Rightarrow> fp list \<Rightarrow> fp" where
  "spec_cosine env q r = np_vdot env (spec_normalize env r) (spec_normalize env q)"


section \<open>Frame validator: \<^verbatim>\<open>FaceProcessor.process_frame\<close>\<close>

text \<open>The dictionary \<^verbatim>\<open>result\<close> of \<^verbatim>\<open>process_frame\<close>.\<close>

record frame_outcome =
  embedding :: "fp list option"
  confidence :: "real option"
  face_area :: "int option"
  face_ratio :: "real option"
  pose_label :: string
  timestamp :: string
  error :: "string option"

text \<open>
  What a run of \<^verbatim>\<open>process_frame\<close> does besides building its result, recorded in
  order: a call of the extractor, the division \<^verbatim>\<open>face_area / image_area\<close>, or the
  fallback \<open>0\<close> of the guarded expression when \<^verbatim>\<open>image_area > 0\<close> is false.
\<close>

datatype event = Represent image | Division int nat | Fallback

text \<open>\<^verbatim>\<open>d.get(key, 0)\<close>.\<close>

definition get0 :: "(string \<rightharpoonup> int) \<Rightarrow> string \<Rightarrow> int" where
  "get0 d k = (case d k of None \<Rightarrow> 0 | Some v \<Rightarrow> v)"

text \<open>
  Lines 106 to 132: the single detection is read, the face ratio computed and checked.
  A missing \<^verbatim>\<open>embedding\<close> key raises \<^verbatim>\<open>KeyError\<close>, which the outer handler of
  \<^verbatim>\<open>process_frame\<close> turns into an error outcome. The coordinates \<open>x\<close> and \<open>y\<close> are read by
  the source and not used. The embedding is converted to \<^verbatim>\<open>float32\<close> element by element.
\<close>

definition extract_face ::
  "env \<Rightarrow> frame_outcome \<Rightarrow> nat \<Rightarrow> face_data \<Rightarrow> frame_outcome \<times> event list" where
  "extract_face env result image_area fd =
     (case fd_embedding fd of
        None \<Rightarrow>
          (result\<lparr>error := Some (''Unexpected error processing frame: '' @
             [CHR 0x27] @ ''embedding'' @ [CHR 0x27])\<rparr>, [])
      | Some emb \<Rightarrow>
          (let facial_area = (case fd_facial_area fd of None \<Rightarrow> Map.empty | Some d \<Rightarrow> d);
               w = get0 facial_area ''w'';
               h = get0 facial_area ''h'';
               face_area_v = w * h;
               face_ratio_v =
                 (if image_area > 0 then real_of_int face_area_v / real image_area else 0);
               ev = (if image_area > 0 then Division face_area_v image_area else Fallback)
           in if face_ratio_v < 0.05
              then (result\<lparr>error := Some (''Face too small (ratio: '' @ fmt4f env face_ratio_v @
                      ''). Minimum 0.05 required'')\<rparr>, [ev])
              else (result\<lparr>embedding := Some (map (float32 env) emb),
                           confidence := Some face_ratio_v,
                           face_area := Some face_area_v,
                           face_ratio := Some face_ratio_v,
                           error := None\<rparr>, [ev])))"

text \<open>Lines 93 to 104: exactly one detection is required.\<close>

definition check_faces ::
  "env \<Rightarrow> frame_outcome \<Rightarrow> nat \<Rightarrow> deepface_result \<Rightarrow> frame_outcome \<times> event list" where
  "check_faces env result image_area deepface_result =
     (case deepface_result of
        NotAList \<Rightarrow> (result\<lparr>error := Some ''Unexpected DeepFace result format''\<rparr>, [])
      | FaceList faces \<Rightarrow>
          if length faces = 0
          then (result\<lparr>error := Some ''No face detected in image''\<rparr>, [])
          else if length faces > 1
          then (result\<lparr>error := Some (''Multiple faces detected ('' @ str_nat (length faces) @
                  ''). Exactly 1 face required'')\<rparr>, [])
          else extract_face env result image_area (faces ! 0))"

text \<open>
  The whole of \<^verbatim>\<open>process_frame\<close>, with the events of the run. An exception of the
  decoder is caught by the outer handler; an exception of the extractor by the inner one.
\<close>

definition process_frame_events ::
  "env \<Rightarrow> string \<Rightarrow> bytes \<Rightarrow> string \<Rightarrow> frame_outcome \<times> event list" where
  "process_frame_events env now image_data pose =
     (let result = \<lparr>embedding = None, confidence = None, face_area = None, face_ratio = None,
                     pose_label = pose, timestamp = now, error = None\<rparr>
      in case imdecode env image_data of
           Inl e \<Rightarrow> (result\<lparr>error := Some (''Unexpected error processing frame: '' @ e)\<rparr>, [])
         | Inr None \<Rightarrow> (result\<lparr>error := Some ''Failed to decode image''\<rparr>, [])
         | Inr (Some img) \<Rightarrow>
             (let height = img_height img; width = img_width img
              in if height < 200 \<or> width < 200
                 then (result\<lparr>error := Some (''Image too small: '' @ str_nat width @ ''x'' @
                         str_nat height @ ''. Minimum 200x200 required'')\<rparr>, [])
                 else (let image_area = width * height
                       in case represent env img of
                            Inl e \<Rightarrow>
                              (result\<lparr>error := Some (''DeepFace processing failed: '' @ e)\<rparr>,
                               [Represent img])
                          | Inr deepface_result \<Rightarrow>
                              (let (r, evs) = check_faces env result image_area deepface_result
                               in (r, Represent img # evs)))))"

definition process_frame :: "env \<Rightarrow> string \<Rightarrow> bytes \<Rightarrow> string \<Rightarrow> frame_outcome" where
  "process_frame env now image_data pose = fst (process_frame_events env now image_data pose)"

section \<open>Verification: \<^verbatim>\<open>FaceProcessor.verify_face\<close>\<close>

text \<open>The two messages of a completed comparison.\<close>

definition verify_message :: "env \<Rightarrow> fp \<Rightarrow> real \<Rightarrow> string" where
  "verify_message env best_similarity threshold =
     (if fle (Finite threshold) best_similarity
      then ''Face verified with similarity: '' @ fmt4f_sim env best_similarity
      else ''Face not verified. Best similarity: '' @ fmt4f_sim env best_similarity @
           '' (threshold: '' @ str_float env threshold @ '')'')"

text \<open>
  The body of the \<^verbatim>\<open>try\<close> block; \<open>Inl\<close> is an exception raised inside it. The comparison
  \<^verbatim>\<open>best_similarity >= threshold\<close> is that of floats: false for NaN.
\<close>

definition verify_face_body ::
  "env \<Rightarrow> string \<Rightarrow> bytes \<Rightarrow> ndarray \<Rightarrow> real \<Rightarrow> string + (bool \<times> fp \<times> string)" where
  "verify_face_body env now image_data stored_embeddings threshold =
     (let result = process_frame env now image_data ''verification''
      in case error result of
           Some e \<Rightarrow> Inr (False, Finite 0, ''Face processing failed: '' @ e)
         | None \<Rightarrow>
             (case embedding result of
                None \<Rightarrow> Inr (False, Finite 0, ''Failed to extract embedding'')
              | Some query_embedding \<Rightarrow>
                  (case cosine_similarity env query_embedding stored_embeddings of
                     Inl e \<Rightarrow> Inl e
                   | Inr similarities \<Rightarrow>
                       (case np_max similarities of
                          Inl e \<Rightarrow> Inl e
                        | Inr best_similarity \<Rightarrow>
                            (let is_match = fle (Finite threshold) best_similarity
                             in Inr (is_match, best_similarity,
                                     verify_message env best_similarity threshold))))))"

text \<open>
  \<^verbatim>\<open>verify_face\<close>: the body under \<^verbatim>\<open>except Exception\<close>. The result is \<open>Inl\<close> when an
  exception leaves the function.
\<close>

definition verify_face ::
  "env \<Rightarrow> string \<Rightarrow> bytes \<Rightarrow> ndarray \<Rightarrow> real \<Rightarrow> string + (bool \<times> fp \<times> string)" where
  "verify_face env now image_data stored_embeddings threshold =
     (case verify_face_body env now image_data stored_embeddings threshold of
        Inl e \<Rightarrow> Inr (False, Finite 0, ''Verification error: '' @ e)
      | Inr r \<Rightarrow> Inr r)"

section \<open>Enrollment store: \<^verbatim>\<open>app/storage.py\<close>\<close>

text \<open>
  A path of the store directory: no file, a file that cannot be read back (truncated or
  otherwise corrupt), or a file with its content. The serialisation itself
  (\<^verbatim>\<open>np.savez_compressed\<close>, \<^verbatim>\<open>json.dump\<close> and their readers) is library code: a file that
  was written to the end holds the value that was written.
\<close>

datatype 'a artifact = Missing | Unreadable | Stored 'a

record npz =
  npz_embeddings :: "fp list list"
  npz_version :: string
  npz_timestamp :: string

record frame_meta =
  m_pose :: string
  m_timestamp :: string
  m_confidence :: "real option"
  m_face_ratio :: "real option"

record metadata_doc =
  md_version :: string
  md_timestamp :: string
  md_count :: nat
  md_frames :: "frame_meta list"

record store =
  embeddings_path :: "npz artifact"
  metadata_path :: "metadata_doc artifact"

text \<open>
  Both files are written in place. A write that raises does so either before the file
  is touched (the path cannot be opened for writing: the file stays as it was) or after
  the file has been opened and truncated (the disk is full, a value cannot be
  serialised: the file is left truncated).
\<close>

datatype fault = BeforeWrite string | DuringWrite string

text \<open>
  The operating system and the serialisers during one call of \<^verbatim>\<open>save_enrollment\<close>:
  \<open>savez_error\<close> is the failure, if any, of \<^verbatim>\<open>np.savez_compressed\<close> on the embeddings file,
  \<open>open_error\<close> the failure, if any, of the block that opens the metadata file and calls
  \<^verbatim>\<open>json.dump\<close>.
\<close>

record io =
  savez_error :: "fault option"
  open_error :: "fault option"

text \<open>\<^verbatim>\<open>np.stack(arrays, axis=0)\<close> of vectors.\<close>

fun np_stack :: "fp list list \<Rightarrow> string + fp list list" where
  "np_stack [] = Inl ''need at least one array to stack''"
| "np_stack (x # xs) =
     (if list_all (\<lambda>y. length y = length x) xs then Inr (x # xs)
      else Inl ''all input arrays must have the same shape'')"

text \<open>
  \<^verbatim>\<open>save_enrollment\<close>: the embeddings file is written first, the metadata file second.
  The store is returned as the call leaves it, also when the call raises (\<open>Inl\<close>).
\<close>

definition save_enrollment ::
  "io \<Rightarrow> string \<Rightarrow> string \<Rightarrow> fp list list \<Rightarrow> frame_meta list \<Rightarrow> store \<Rightarrow>
   (string + unit) \<times> store" where
  "save_enrollment os t_npz t_json embeddings metadata st =
     (case np_stack embeddings of
        Inl e \<Rightarrow> (Inl e, st)
      | Inr embeddings_array \<Rightarrow>
          (case savez_error os of
             Some (BeforeWrite e) \<Rightarrow> (Inl e, st)
           | Some (DuringWrite e) \<Rightarrow> (Inl e, st\<lparr>embeddings_path := Unreadable\<rparr>)
           | None \<Rightarrow>
               (let st1 = st\<lparr>embeddings_path :=
                            Stored \<lparr>npz_embeddings = embeddings_array, npz_version = ''1.0'',
                                    npz_timestamp = t_npz\<rparr>\<rparr>;
                    metadata_to_save =
                      \<lparr>md_version = ''1.0'', md_timestamp = t_json,
                       md_count = length embeddings, md_frames = metadata\<rparr>
                in case open_error os of
                     Some (BeforeWrite e) \<Rightarrow> (Inl e, st1)
                   | Some (DuringWrite e) \<Rightarrow> (Inl e, st1\<lparr>metadata_path := Unreadable\<rparr>)
                   | None \<Rightarrow> (Inr (), st1\<lparr>metadata_path := Stored metadata_to_save\<rparr>))))"

definition load_embeddings :: "store \<Rightarrow> ndarray option" where
  "load_embeddings st =
     (case embeddings_path st of
        Missing \<Rightarrow> None
      | Unreadable \<Rightarrow> None
      | Stored d \<Rightarrow> Some (Mat (npz_embeddings d)))"

definition load_metadata :: "store \<Rightarrow> metadata_doc option" where
  "load_metadata st =
     (case metadata_path st of
        Missing \<Rightarrow> None
      | Unreadable \<Rightarrow> None
      | Stored m \<Rightarrow> Some m)"

definition is_enrolled :: "store \<Rightarrow> bool" where
  "is_enrolled st = (embeddings_path st \<noteq> Missing \<and> metadata_path st \<noteq> Missing)"

definition clear_enrollment :: "store \<Rightarrow> store" where
  "clear_enrollment st =
     (let st1 = (if embeddings_path st \<noteq> Missing then st\<lparr>embeddings_path := Missing\<rparr> else st)
      in if metadata_path st1 \<noteq> Missing then st1\<lparr>metadata_path := Missing\<rparr> else st1)"

section \<open>Endpoints: \<^verbatim>\<open>enroll\<close> and \<^verbatim>\<open>verify\<close> of \<^verbatim>\<open>app/main.py\<close>\<close>

record frame_data =
  fr_pose :: string
  fr_image :: string

datatype data =
  EnrollData nat "frame_meta list" "string list option"
| VerifyData bool fp real

datatype response = HTTPException nat string | SuccessResponse string "data option"

text \<open>The base64 text of a request, with the prefix of a data URI cut off.\<close>

definition decode_image :: "env \<Rightarrow> string \<Rightarrow> string + bytes" where
  "decode_image env image_str =
     b64decode env (if CHR '','' \<in> set image_str then split_comma_1 image_str else image_str)"

definition frame_prefix :: "nat \<Rightarrow> frame_data \<Rightarrow> string" where
  "frame_prefix idx frame = ''Frame '' @ str_nat (idx + 1) @ '' ('' @ fr_pose frame @ '')''"

definition meta_of :: "frame_outcome \<Rightarrow> frame_meta" where
  "meta_of result =
     \<lparr>m_pose = pose_label result, m_timestamp = timestamp result,
      m_confidence = confidence result, m_face_ratio = face_ratio result\<rparr>"

text \<open>
  One turn of the loop over \<^verbatim>\<open>enumerate(frames)\<close>, on the three lists
  \<^verbatim>\<open>valid_embeddings\<close>, \<^verbatim>\<open>valid_metadata\<close> and \<^verbatim>\<open>errors\<close>; \<open>clock idx\<close> is the time read while
  frame \<open>idx\<close> is processed.
\<close>

definition enroll_step ::
  "env \<Rightarrow> (nat \<Rightarrow> string) \<Rightarrow> nat \<times> frame_data \<Rightarrow>
   fp list list \<times> frame_meta list \<times> string list \<Rightarrow>
   fp list list \<times> frame_meta list \<times> string list" where
  "enroll_step env clock p acc =
     (case p of (idx, frame) \<Rightarrow>
      case acc of (valid_embeddings, valid_metadata, errors) \<Rightarrow>
        (case decode_image env (fr_image frame) of
           Inl e \<Rightarrow>
             (valid_embeddings, valid_metadata,
              errors @ [frame_prefix idx frame @ '': Processing error - '' @ e])
         | Inr image_data \<Rightarrow>
             (let result = process_frame env (clock idx) image_data (fr_pose frame)
              in case error result of
                   Some e \<Rightarrow>
                     (valid_embeddings, valid_metadata,
                      errors @ [frame_prefix idx frame @ '': '' @ e])
                 | None \<Rightarrow>
                     (case embedding result of
                        Some emb \<Rightarrow>
                          (valid_embeddings @ [emb], valid_metadata @ [meta_of result], errors)
                      | None \<Rightarrow> (valid_embeddings, valid_metadata, errors)))))"

definition enroll ::
  "env \<Rightarrow> io \<Rightarrow> (nat \<Rightarrow> string) \<Rightarrow> frame_data list \<Rightarrow> store \<Rightarrow> response \<times> store" where
  "enroll env os clock frames st =
     (if length frames < 5
      then (HTTPException 400 (''Insufficient frames: '' @ str_nat (length frames) @
              '' provided, minimum 5 required''), st)
      else
        (case fold (enroll_step env clock) (enumerate 0 frames) ([], [], []) of
           (valid_embeddings, valid_metadata, errors) \<Rightarrow>
             if length valid_embeddings < 5
             then (HTTPException 400
                     (''Insufficient valid embeddings: '' @ str_nat (length valid_embeddings) @
                      '' valid out of '' @ str_nat (length frames) @ '' frames'' @
                      (if errors \<noteq> [] then ''. Errors: '' @ join ''; '' (take 5 errors)
                       else [])), st)
             else
               (case save_enrollment os (clock (length frames)) (clock (length frames + 1))
                       valid_embeddings valid_metadata st of
                  (Inl e, st') \<Rightarrow>
                    (HTTPException 500 (''Failed to save enrollment: '' @ e), st')
                | (Inr u, st') \<Rightarrow>
                    (SuccessResponse
                       (''Successfully enrolled '' @ str_nat (length valid_embeddings) @
                        '' face embeddings'')
                       (Some (EnrollData (length valid_embeddings) valid_metadata
                                (if errors \<noteq> [] then Some errors else None))), st'))))"

text \<open>
  The value of the Python literal \<^verbatim>\<open>0.6\<close>: the double nearest to six tenths.
\<close>

definition py_0_6 :: real where
  "py_0_6 = 5404319552844595 / 2 ^ 53"

text \<open>
  \<^verbatim>\<open>verify\<close>: the threshold passed to \<^verbatim>\<open>verify_face\<close> is the literal 0.6. An exception
  other than \<^verbatim>\<open>HTTPException\<close> inside the \<^verbatim>\<open>try\<close> block becomes a response 500.
\<close>

definition verify :: "env \<Rightarrow> string \<Rightarrow> string \<Rightarrow> store \<Rightarrow> response" where
  "verify env now request_image st =
     (if \<not> is_enrolled st
      then HTTPException 400 ''No enrollment found. Please enroll a face first.''
      else
        (case decode_image env request_image of
           Inl e \<Rightarrow> HTTPException 500 (''Verification error: '' @ e)
         | Inr image_data \<Rightarrow>
             (case load_embeddings st of
                None \<Rightarrow> HTTPException 500 ''Failed to load stored embeddings''
              | Some stored_embeddings \<Rightarrow>
                  (case verify_face env now image_data stored_embeddings py_0_6 of
                     Inl e \<Rightarrow> HTTPException 500 (''Verification error: '' @ e)
                   | Inr (is_match, similarity, message) \<Rightarrow>
                       SuccessResponse message (Some (VerifyData is_match similarity py_0_6))))))"

section \<open>The frames of a request, described one by one\<close>

text \<open>
  The outcome of one numbered frame: \<open>Inl\<close> the message that the loop of \<^verbatim>\<open>enroll\<close>
  appends to \<^verbatim>\<open>errors\<close>, \<open>Inr\<close> the outcome of a frame that the validator accepted.
\<close>

definition frame_result ::
  "env \<Rightarrow> (nat \<Rightarrow> string) \<Rightarrow> nat \<times> frame_data \<Rightarrow> (string + frame_outcome) option" where
  "frame_result env clock p =
     (case p of (idx, frame) \<Rightarrow>
        (case decode_image env (fr_image frame) of
           Inl e \<Rightarrow> Some (Inl (frame_prefix idx frame @ '': Processing error - '' @ e))
         | Inr image_data \<Rightarrow>
             (let result = process_frame env (clock idx) image_data (fr_pose frame)
              in case error result of
                   Some e \<Rightarrow> Some (Inl (frame_prefix idx frame @ '': '' @ e))
                 | None \<Rightarrow> (if embedding result \<noteq> None then Some (Inr result) else None))))"

definition frame_results ::
  "env \<Rightarrow> (nat \<Rightarrow> string) \<Rightarrow> frame_data list \<Rightarrow> (string + frame_outcome) list" where
  "frame_results env clock frames =
     List.map_filter (frame_result env clock) (enumerate 0 frames)"

text \<open>The accepted outcomes and the error messages, each in the order of the frames.\<close>

definition accepted :: "env \<Rightarrow> (nat \<Rightarrow> string) \<Rightarrow> frame_data list \<Rightarrow> frame_outcome list" where
  "accepted env clock frames =
     List.map_filter (\<lambda>r. case r of Inl e \<Rightarrow> None | Inr x \<Rightarrow> Some x)
       (frame_results env clock frames)"

definition frame_errors :: "env \<Rightarrow> (nat \<Rightarrow> string) \<Rightarrow> frame_data list \<Rightarrow> string list" where
  "frame_errors env clock frames =
     List.map_filter (\<lambda>r. case r of Inl e \<Rightarrow> Some e | Inr x \<Rightarrow> None)
       (frame_results env clock frames)"

definition accepted_embeddings ::
  "env \<Rightarrow> (nat \<Rightarrow> string) \<Rightarrow> frame_data list \<Rightarrow> fp list list" where
  "accepted_embeddings env clock frames =
     List.map_filter embedding (accepted env clock frames)"

section \<open>Concrete inputs\<close>

text \<open>
  A sample arithmetic for the examples: exact on finite values, except that a norm is
  infinite when its sum of squares exceeds the largest \<^verbatim>\<open>float32\<close> value.
\<close>

definition eps :: real where
  "eps = 1 / 10 ^ 8"

definition float32_max :: real where
  "float32_max = (2 - 1 / 2 ^ 23) * 2 ^ 127"

definition fin :: "real list \<Rightarrow> fp list" where
  "fin rs = map Finite rs"


fun reals_of :: "fp list \<Rightarrow> real list option" where
  "reals_of [] = Some []"
| "reals_of (Finite r # xs) = (case reals_of xs of None \<Rightarrow> None | Some rs \<Rightarrow> Some (r # rs))"
| "reals_of (x # xs) = None"

definition sample_norm :: "fp list \<Rightarrow> fp" where
  "sample_norm v =
     (case reals_of v of
        None \<Rightarrow> NaN
      | Some rs \<Rightarrow>
          (if sum_list (map (\<lambda>x. x * x) rs) > float32_max then PosInf
           else Finite (sqrt (sum_list (map (\<lambda>x. x * x) rs)))))"

fun sample_add_eps :: "fp \<Rightarrow> fp" where
  "sample_add_eps (Finite r) = Finite (r + eps)"
| "sample_add_eps x = x"

fun sample_divide :: "fp \<Rightarrow> fp \<Rightarrow> fp" where
  "sample_divide (Finite a) (Finite b) =
     (if b = 0 then (if a = 0 then NaN else if 0 < a then PosInf else NegInf)
      else Finite (a / b))"
| "sample_divide (Finite a) PosInf = Finite 0"
| "sample_divide (Finite a) NegInf = Finite 0"
| "sample_divide x y = NaN"

definition sample_vdot :: "fp list \<Rightarrow> fp list \<Rightarrow> fp" where
  "sample_vdot u v =
     (case reals_of u of
        None \<Rightarrow> NaN
      | Some a \<Rightarrow>
          (case reals_of v of
             None \<Rightarrow> NaN
           | Some b \<Rightarrow> Finite (sum_list (map2 (*) a b))))"

text \<open>
  A decoder that yields no image for the empty input and otherwise an image 200 wide
  and 100 rows high per input byte; an extractor that finds one face of 100 by 100
  pixels, with an embedding that depends on the image; a base64 decoder that rejects
  the text \<open>!\<close>.
\<close>

definition sample_face :: "image \<Rightarrow> face_data" where
  "sample_face img =
     \<lparr>fd_embedding = Some [Finite 3, Finite (real (length (img_pixels img)) + 2)],
      fd_facial_area = Some [''x'' \<mapsto> 50, ''y'' \<mapsto> 50, ''w'' \<mapsto> 100, ''h'' \<mapsto> 100]\<rparr>"

definition sample_env :: env where
  "sample_env =
     \<lparr>imdecode = (\<lambda>bs. if bs = [] then Inr None
                        else Inr (Some \<lparr>img_height = 100 * length bs, img_width = 200,
                                        img_pixels = bs\<rparr>)),
      represent = (\<lambda>img. Inr (FaceList [sample_face img])),
      b64decode = (\<lambda>s. if s = ''!'' then Inl ''Incorrect padding''
                        else Inr (replicate (length s) 0)),
      fmt4f = (\<lambda>r. ''#.####''),
      str_float = (\<lambda>r. ''#.#''),
      float32 = (\<lambda>x. x),
      np_norm = sample_norm,
      np_add_eps = sample_add_eps,
      np_divide = sample_divide,
      np_vdot = sample_vdot,
      fmt4f_sim = (\<lambda>x. ''#.####'')\<rparr>"

text \<open>A stub extractor that fails whenever it is called.\<close>

definition failing_extractor :: "image \<Rightarrow> string + deepface_result" where
  "failing_extractor img = Inl ''the extractor was called''"

definition no_fault :: io where
  "no_fault = \<lparr>savez_error = None, open_error = None\<rparr>"

definition empty_store :: store where
  "empty_store = \<lparr>embeddings_path = Missing, metadata_path = Missing\<rparr>"

definition sample_frame :: frame_data where
  "sample_frame = \<lparr>fr_pose = ''front'', fr_image = ''QUJD''\<rparr>"

definition right_frame :: frame_data where
  "right_frame = \<lparr>fr_pose = ''right'', fr_image = ''data:image/png;base64,QQ''\<rparr>"

definition up_frame :: frame_data where
  "up_frame = \<lparr>fr_pose = ''up'', fr_image = ''QUJDRE''\<rparr>"

text \<open>A frame whose image text the sample base64 decoder rejects.\<close>

definition bad_frame :: frame_data where
  "bad_frame = \<lparr>fr_pose = ''left'', fr_image = ''!''\<rparr>"

definition two_frames :: "frame_data list" where
  "two_frames = [sample_frame, bad_frame]"

definition five_good_one_bad :: "frame_data list" where
  "five_good_one_bad =
     [sample_frame, right_frame, bad_frame, up_frame, sample_frame, right_frame]"

definition four_good_three_bad :: "frame_data list" where
  "four_good_three_bad =
     [sample_frame, bad_frame, sample_frame, bad_frame, sample_frame, bad_frame, sample_frame]"

definition sample_clock :: "nat \<Rightarrow> string" where
  "sample_clock n = ''2024-01-01T00:00:0'' @ str_nat n"

text \<open>An operating system that refuses to open the metadata file for writing.\<close>

definition metadata_not_writable :: io where
  "metadata_not_writable =
     \<lparr>savez_error = None, open_error = Some (BeforeWrite ''Permission denied'')\<rparr>"

text \<open>A disk that fills up while the metadata file is written.\<close>

definition disk_full :: io where
  "disk_full =
     \<lparr>savez_error = None, open_error = Some (DuringWrite ''No space left on device'')\<rparr>"

text \<open>A store that holds an earlier enrollment of two embeddings.\<close>

definition old_meta :: frame_meta where
  "old_meta = \<lparr>m_pose = ''front'', m_timestamp = ''yesterday'',
               m_confidence = Some (1 / 4), m_face_ratio = Some (1 / 4)\<rparr>"

definition old_store :: store where
  "old_store =
     \<lparr>embeddings_path =
        Stored \<lparr>npz_embeddings = [fin [1, 0], fin [0, 1]], npz_version = ''1.0'',
                npz_timestamp = ''yesterday''\<rparr>,
      metadata_path =
        Stored \<lparr>md_version = ''1.0'', md_timestamp = ''yesterday'', md_count = 2,
                md_frames = [old_meta, old_meta]\<rparr>\<rparr>"

definition new_meta :: frame_meta where
  "new_meta = \<lparr>m_pose = ''left'', m_timestamp = ''today'',
               m_confidence = Some (1 / 8), m_face_ratio = Some (1 / 8)\<rparr>"

text \<open>
  The metadata expected of the request \<open>five_good_one_bad\<close> under the sample clock: the
  entries of frames 1, 2, 4, 5 and 6.
\<close>

definition expected_metadata :: "frame_meta list" where
  "expected_metadata =
     [\<lparr>m_pose = ''front'', m_timestamp = ''2024-01-01T00:00:00'',
       m_confidence = Some (1 / 8), m_face_ratio = Some (1 / 8)\<rparr>,
      \<lparr>m_pose = ''right'', m_timestamp = ''2024-01-01T00:00:01'',
       m_confidence = Some (1 / 4), m_face_ratio = Some (1 / 4)\<rparr>,
      \<lparr>m_pose = ''up'', m_timestamp = ''2024-01-01T00:00:03'',
       m_confidence = Some (1 / 12), m_face_ratio = Some (1 / 12)\<rparr>,
      \<lparr>m_pose = ''front'', m_timestamp = ''2024-01-01T00:00:04'',
       m_confidence = Some (1 / 8), m_face_ratio = Some (1 / 8)\<rparr>,
      \<lparr>m_pose = ''right'', m_timestamp = ''2024-01-01T00:00:05'',
       m_confidence = Some (1 / 4), m_face_ratio = Some (1 / 4)\<rparr>]"

section \<open>Floating-point values: properties\<close>

lemma fle_refl: "x \<noteq> NaN \<Longrightarrow> fle x x"
  by (cases x) simp_all

lemma fle_total: "x \<noteq> NaN \<Longrightarrow> y \<noteq> NaN \<Longrightarrow> fle x y \<or> fle y x"
  by (cases x; cases y) auto

lemma fle_trans: "fle x y \<Longrightarrow> fle y z \<Longrightarrow> fle x z"
  by (cases x; cases y; cases z) auto

lemma fle_not_NaN: "fle x y \<Longrightarrow> x \<noteq> NaN \<and> y \<noteq> NaN"
  by (cases x; cases y) auto

lemma fmax_NaN: "fmax NaN y = NaN" "fmax x NaN = NaN"
  by (simp_all add: fmax_def)

lemma fold_fmax_NaN: "fold fmax xs NaN = NaN"
  by (induction xs) (simp_all add: fmax_NaN)

lemma fold_fmax_has_NaN: "NaN \<in> set xs \<Longrightarrow> fold fmax xs x = NaN"
  by (induction xs arbitrary: x) (auto simp: fmax_NaN fold_fmax_NaN)

lemma fold_fmax_greatest:
  "NaN \<notin> set (x # xs) \<Longrightarrow>
   fold fmax xs x \<in> set (x # xs) \<and> (\<forall>s\<in>set (x # xs). fle s (fold fmax xs x))"
proof (induction xs arbitrary: x)
  case Nil
  then show ?case by (simp add: fle_refl)
next
  case (Cons y ys)
  then have n: "x \<noteq> NaN" "y \<noteq> NaN" "NaN \<notin> set ys" by auto
  show ?case
  proof (cases "fle y x")
    case True
    then have m: "fmax y x = x" using n by (simp add: fmax_def)
    from n have "NaN \<notin> set (x # ys)" by simp
    from Cons.IH [OF this] have ih:
      "fold fmax ys x \<in> set (x # ys)" "\<forall>s\<in>set (x # ys). fle s (fold fmax ys x)" by auto
    from ih(2) have "fle x (fold fmax ys x)" by simp
    with True have "fle y (fold fmax ys x)" by (rule fle_trans)
    with ih m show ?thesis by auto
  next
    case False
    then have m: "fmax y x = y" using n by (simp add: fmax_def)
    from False n have xy: "fle x y" using fle_total [of x y] by auto
    from n have "NaN \<notin> set (y # ys)" by simp
    from Cons.IH [OF this] have ih:
      "fold fmax ys y \<in> set (y # ys)" "\<forall>s\<in>set (y # ys). fle s (fold fmax ys y)" by auto
    from ih(2) have "fle y (fold fmax ys y)" by simp
    with xy have "fle x (fold fmax ys y)" by (rule fle_trans)
    with ih m show ?thesis by auto
  qed
qed

section \<open>Similarity engine: properties\<close>

lemma length_vec_div: "length (vec_div env v c) = length v"
  by (simp add: vec_div_def)







lemma reals_of_fin: "reals_of (fin rs) = Some rs"
  by (induction rs) (simp_all add: fin_def)






lemma eps_pos: "0 < eps"
  by (simp add: eps_def)


lemma sample_norm_3_4: "sample_norm (fin [3, 4]) = Finite 5"
proof -
  have "sqrt 25 = sqrt (5\<^sup>2)" by simp
  then have "sqrt 25 = 5" by (simp del: power2_eq_square)
  then show ?thesis
    by (simp add: sample_norm_def fin_def float32_max_def)
qed






section \<open>Frame validator: properties\<close>

lemmas frame_defs = process_frame_def process_frame_events_def check_faces_def extract_face_def
  get0_def Let_def

lemmas sample_defs = sample_env_def sample_face_def sample_frame_def no_fault_def empty_store_def
  bad_frame_def sample_clock_def right_frame_def up_frame_def

lemma extract_face_exclusive:
  "extract_face env r a fd = (r', evs) \<Longrightarrow> embedding r = None \<Longrightarrow>
   (embedding r' = None) \<noteq> (error r' = None)"
  by (auto simp: extract_face_def Let_def split: option.splits if_splits)

lemma check_faces_exclusive:
  "check_faces env r a d = (r', evs) \<Longrightarrow> embedding r = None \<Longrightarrow>
   (embedding r' = None) \<noteq> (error r' = None)"
  by (auto simp: check_faces_def split: deepface_result.splits if_splits
      dest: extract_face_exclusive)

lemma process_frame_events_exclusive:
  "process_frame_events env now bs pose = (r, evs) \<Longrightarrow>
   (embedding r = None) \<noteq> (error r = None)"
  unfolding process_frame_events_def Let_def
  by (auto split: sum.splits option.splits if_splits prod.splits dest!: check_faces_exclusive)

lemma process_frame_exclusive:
  "(embedding (process_frame env now bs pose) = None) \<noteq>
   (error (process_frame env now bs pose) = None)"
  using process_frame_events_exclusive [of env now bs pose]
  by (cases "process_frame_events env now bs pose") (simp add: process_frame_def)

text \<open>
  C9. Every outcome of the frame validator has exactly one of \<open>embedding\<close> and \<open>error\<close>:
  either the embedding is absent and the error is set, or the embedding is set and the
  error is absent.
\<close>

theorem frame_outcome_exactly_one:
  "(embedding (process_frame env now bs pose) = None \<and>
    error (process_frame env now bs pose) \<noteq> None) \<or>
   (embedding (process_frame env now bs pose) \<noteq> None \<and>
    error (process_frame env now bs pose) = None)"
  using process_frame_exclusive [of env now bs pose] by auto

theorem frame_outcome_exactly_one_witness:
  "embedding (process_frame sample_env ''t'' [0] ''front'') = None \<and>
   error (process_frame sample_env ''t'' [0] ''front'') \<noteq> None \<and>
   embedding (process_frame sample_env ''t'' [0, 0] ''front'') \<noteq> None \<and>
   error (process_frame sample_env ''t'' [0, 0] ''front'') = None"
  using frame_outcome_exactly_one [of sample_env "''t''" "[0]" "''front''"]
    frame_outcome_exactly_one [of sample_env "''t''" "[0, 0]" "''front''"]
  by (simp add: frame_defs sample_defs)

lemma process_frame_events_small:
  assumes "imdecode env bs = Inr (Some img)" "img_height img < 200 \<or> img_width img < 200"
  shows "process_frame_events env now bs pose =
     (\<lparr>embedding = None, confidence = None, face_area = None, face_ratio = None,
       pose_label = pose, timestamp = now,
       error = Some (''Image too small: '' @ str_nat (img_width img) @ ''x'' @
                     str_nat (img_height img) @ ''. Minimum 200x200 required'')\<rparr>, [])"
  using assms by (simp add: process_frame_events_def Let_def)

text \<open>
  C8. When the input decodes to an image whose height or width is below 200, the
  validator returns the error outcome of the minimum resolution, whatever extractor is
  put in the place of \<^verbatim>\<open>DeepFace.represent\<close>, and the run has no event: the extractor
  is not called.
\<close>

theorem too_small_rejected_before_extractor:
  assumes "imdecode env bs = Inr (Some img)" "img_height img < 200 \<or> img_width img < 200"
  shows "process_frame_events (env\<lparr>represent := extractor\<rparr>) now bs pose =
     (\<lparr>embedding = None, confidence = None, face_area = None, face_ratio = None,
       pose_label = pose, timestamp = now,
       error = Some (''Image too small: '' @ str_nat (img_width img) @ ''x'' @
                     str_nat (img_height img) @ ''. Minimum 200x200 required'')\<rparr>, [])"
  using assms by (intro process_frame_events_small) simp_all

theorem too_small_rejected_before_extractor_witness:
  "imdecode sample_env [0] = Inr (Some \<lparr>img_height = 100, img_width = 200, img_pixels = [0]\<rparr>) \<and>
   process_frame_events (sample_env\<lparr>represent := failing_extractor\<rparr>) ''t'' [0] ''front'' =
     (\<lparr>embedding = None, confidence = None, face_area = None, face_ratio = None,
       pose_label = ''front'', timestamp = ''t'',
       error = Some ''Image too small: 200x100. Minimum 200x200 required''\<rparr>, [])"
proof -
  have d: "imdecode sample_env [0] =
      Inr (Some \<lparr>img_height = 100, img_width = 200, img_pixels = [0]\<rparr>)"
    by (simp add: sample_env_def)
  have s: "img_height \<lparr>img_height = 100, img_width = 200, img_pixels = [0]\<rparr> < 200 \<or>
      img_width \<lparr>img_height = 100, img_width = 200, img_pixels = [0]\<rparr> < 200"
    by simp
  show ?thesis
    using d too_small_rejected_before_extractor [OF d s, of failing_extractor "''t''" "''front''"]
    by (simp add: str_nat.simps)
qed

lemma extract_face_events:
  "extract_face env r a fd = (r', evs) \<Longrightarrow> 0 < a \<Longrightarrow>
   evs = [] \<or> (\<exists>fa. evs = [Division fa a])"
  by (auto simp: extract_face_def Let_def split: option.splits if_splits)

lemma check_faces_events:
  "check_faces env r a d = (r', evs) \<Longrightarrow> 0 < a \<Longrightarrow>
   evs = [] \<or> (\<exists>fa. evs = [Division fa a])"
  by (auto simp: check_faces_def split: deepface_result.splits if_splits
      dest: extract_face_events)

lemma area_bound: "\<not> (h < 200 \<or> w < 200) \<Longrightarrow> (40000::nat) \<le> w * h"
proof -
  assume "\<not> (h < 200 \<or> w < 200)"
  then have "200 \<le> w" "200 \<le> h" by auto
  then have "200 * 200 \<le> w * h" by (rule mult_le_mono)
  then show ?thesis by simp
qed

lemma process_frame_events_shape:
  assumes "process_frame_events env now bs pose = (r, evs)"
  shows "evs = [] \<or>
   (\<exists>img. imdecode env bs = Inr (Some img) \<and> 40000 \<le> img_width img * img_height img \<and>
      (evs = [Represent img] \<or>
       (\<exists>fa. evs = [Represent img, Division fa (img_width img * img_height img)])))"
proof (cases "imdecode env bs")
  case (Inl e)
  with assms show ?thesis by (auto simp: process_frame_events_def Let_def)
next
  case (Inr oi)
  show ?thesis
  proof (cases oi)
    case None
    with Inr assms show ?thesis by (auto simp: process_frame_events_def Let_def)
  next
    case (Some img)
    show ?thesis
    proof (cases "img_height img < 200 \<or> img_width img < 200")
      case True
      with Inr Some assms show ?thesis by (auto simp: process_frame_events_def Let_def)
    next
      case False
      then have big: "40000 \<le> img_width img * img_height img" by (rule area_bound)
      show ?thesis
      proof (cases "represent env img")
        case (Inl e)
        with Inr Some False big assms show ?thesis
          by (auto simp: process_frame_events_def Let_def)
      next
        case rep: (Inr d)
        obtain r' evs' where cf:
          "check_faces env \<lparr>embedding = None, confidence = None, face_area = None,
             face_ratio = None, pose_label = pose, timestamp = now, error = None\<rparr>
             (img_width img * img_height img) d = (r', evs')"
          by (cases "check_faces env \<lparr>embedding = None, confidence = None, face_area = None,
             face_ratio = None, pose_label = pose, timestamp = now, error = None\<rparr>
             (img_width img * img_height img) d") blast
        from big have "0 < img_width img * img_height img" by linarith
        with cf have "evs' = [] \<or> (\<exists>fa. evs' = [Division fa (img_width img * img_height img)])"
          by (rule check_faces_events)
        moreover from Inr Some False rep cf assms have "evs = Represent img # evs'"
          by (auto simp: process_frame_events_def Let_def)
        ultimately show ?thesis using Inr Some big by auto
      qed
    qed
  qed
qed

text \<open>
  C10. No run of the frame validator takes the fallback of the guarded expression, and
  every division \<^verbatim>\<open>face_area / image_area\<close> it performs has \<open>image_area \<ge> 40000\<close>: the
  division is never by zero.
\<close>

theorem face_ratio_division_defined:
  "Fallback \<notin> set (snd (process_frame_events env now bs pose)) \<and>
   (\<forall>fa a. Division fa a \<in> set (snd (process_frame_events env now bs pose)) \<longrightarrow> 40000 \<le> a)"
  using process_frame_events_shape [of env now bs pose]
  by (cases "process_frame_events env now bs pose") auto

theorem face_ratio_division_defined_witness:
  "Division 10000 40000 \<in> set (snd (process_frame_events sample_env ''t'' [0, 0] ''front'')) \<and>
   Fallback \<notin> set (snd (process_frame_events sample_env ''t'' [0, 0] ''front'')) \<and>
   (40000::nat) \<le> 40000"
  using face_ratio_division_defined [of sample_env "''t''" "[0, 0]" "''front''"]
  by (simp add: frame_defs sample_defs)

section \<open>Verification: properties\<close>

text \<open>
  C2. \<^verbatim>\<open>verify_face\<close> returns a result for every image, every stored array and every
  threshold (no exception leaves it), and whenever the frame validator gives an error
  outcome the result is no match, similarity 0 and the validator's message behind the
  prefix \<^verbatim>\<open>Face processing failed: \<close>.
\<close>

theorem verify_face_never_raises:
  "(\<exists>r. verify_face env now bs stored threshold = Inr r) \<and>
   (\<forall>e. error (process_frame env now bs ''verification'') = Some e \<longrightarrow>
        verify_face env now bs stored threshold =
          Inr (False, Finite 0, ''Face processing failed: '' @ e))"
proof
  show "\<exists>r. verify_face env now bs stored threshold = Inr r"
    by (cases "verify_face_body env now bs stored threshold") (auto simp: verify_face_def)
  show "\<forall>e. error (process_frame env now bs ''verification'') = Some e \<longrightarrow>
        verify_face env now bs stored threshold =
          Inr (False, Finite 0, ''Face processing failed: '' @ e)"
    by (simp add: verify_face_def verify_face_body_def Let_def)
qed

theorem verify_face_never_raises_witness:
  "error (process_frame sample_env ''t'' [0] ''verification'') =
     Some ''Image too small: 200x100. Minimum 200x200 required'' \<and>
   verify_face sample_env ''t'' [0] (Mat [fin [3, 4]]) 0.6 =
     Inr (False, Finite 0,
          ''Face processing failed: Image too small: 200x100. Minimum 200x200 required'')"
  using verify_face_never_raises [of sample_env "''t''" "[0]" "Mat [fin [3, 4]]" "0.6"]
  by (simp add: frame_defs sample_defs str_nat.simps)

lemma cosine_matrix:
  assumes "\<forall>row\<in>set rows. length row = length q"
  shows "cosine_similarity env q (Mat rows) = Inr (Vector (map (spec_cosine env q) rows))"
proof -
  let ?a = "vec_div env q (np_add_eps env (np_norm env q))"
  let ?b = "map (\<lambda>row. vec_div env row (np_add_eps env (np_norm env row))) rows"
  have len: "list_all (\<lambda>row. length row = length ?a) ?b"
    using assms by (simp add: list_all_iff length_vec_div)
  have "map (\<lambda>row. np_vdot env row ?a) ?b = map (spec_cosine env q) rows"
    by (simp add: spec_cosine_def spec_normalize_def vec_div_def comp_def)
  with len have "np_dot_mat env ?b ?a = Inr (map (spec_cosine env q) rows)"
    by (simp add: np_dot_mat_def)
  then show ?thesis by (simp add: cosine_similarity_def Let_def)
qed

lemma np_max_vector:
  assumes "xs \<noteq> []"
  shows "\<exists>best. np_max (Vector xs) = Inr best \<and>
           (NaN \<notin> set xs \<longrightarrow> best \<in> set xs \<and> (\<forall>s\<in>set xs. fle s best)) \<and>
           (NaN \<in> set xs \<longrightarrow> best = NaN)"
proof (cases xs)
  case Nil
  with assms show ?thesis by simp
next
  case (Cons y ys)
  have a: "NaN \<notin> set (y # ys) \<longrightarrow>
      fold fmax ys y \<in> set (y # ys) \<and> (\<forall>s\<in>set (y # ys). fle s (fold fmax ys y))"
    using fold_fmax_greatest [of y ys] by blast
  have b: "NaN \<in> set (y # ys) \<longrightarrow> fold fmax ys y = NaN"
    using fold_fmax_has_NaN [of ys y] fold_fmax_NaN [of ys] by auto
  from a b Cons show ?thesis by simp
qed

lemma verify_face_success:
  assumes "error (process_frame env now bs ''verification'') = None"
    and "embedding (process_frame env now bs ''verification'') = Some q"
    and "np_max (Vector (map (spec_cosine env q) rows)) = Inr best"
    and "\<forall>row\<in>set rows. length row = length q"
  shows "verify_face env now bs (Mat rows) threshold =
           Inr (fle (Finite threshold) best, best, verify_message env best threshold)"
  using assms by (simp add: verify_face_def verify_face_body_def Let_def cosine_matrix)

text \<open>
  C1. When frame validation succeeds with embedding \<open>q\<close> and the stored matrix has at
  least one row, every row of the dimension of \<open>q\<close>, \<^verbatim>\<open>verify_face\<close> returns
  \<open>(threshold \<le> best, best, message)\<close>, where \<open>best\<close> is the maximum of the cosine
  similarities of \<open>q\<close> with the rows: one of them, and at least each of them. (Should a
  similarity be NaN, \<open>best\<close> is NaN and there is no match.) The value \<open>best\<close> is returned
  whether or not there is a match. The endpoint \<^verbatim>\<open>verify\<close> does the same with the
  threshold that the literal 0.6 denotes.
\<close>

theorem verify_best_match:
  assumes "error (process_frame env now bs ''verification'') = None"
    and "embedding (process_frame env now bs ''verification'') = Some q"
    and "rows \<noteq> []"
    and "\<forall>row\<in>set rows. length row = length q"
  shows "\<exists>best.
     verify_face env now bs (Mat rows) threshold =
       Inr (fle (Finite threshold) best, best, verify_message env best threshold) \<and>
     (NaN \<notin> set (map (spec_cosine env q) rows) \<longrightarrow>
        best \<in> set (map (spec_cosine env q) rows) \<and>
        (\<forall>s\<in>set (map (spec_cosine env q) rows). fle s best)) \<and>
     (NaN \<in> set (map (spec_cosine env q) rows) \<longrightarrow>
        best = NaN \<and> \<not> fle (Finite threshold) best) \<and>
     (is_enrolled st \<and> load_embeddings st = Some (Mat rows) \<and>
      decode_image env request_image = Inr bs \<longrightarrow>
      verify env now request_image st =
        SuccessResponse (verify_message env best py_0_6)
          (Some (VerifyData (fle (Finite py_0_6) best) best py_0_6)))"
proof -
  from assms(3) have "map (spec_cosine env q) rows \<noteq> []" by simp
  from np_max_vector [OF this] obtain best where best:
    "np_max (Vector (map (spec_cosine env q) rows)) = Inr best"
    "NaN \<notin> set (map (spec_cosine env q) rows) \<longrightarrow>
       best \<in> set (map (spec_cosine env q) rows) \<and>
       (\<forall>s\<in>set (map (spec_cosine env q) rows). fle s best)"
    "NaN \<in> set (map (spec_cosine env q) rows) \<longrightarrow> best = NaN"
    by blast
  have v: "\<And>t. verify_face env now bs (Mat rows) t =
      Inr (fle (Finite t) best, best, verify_message env best t)"
    using assms(1,2) best(1) assms(4) by (rule verify_face_success)
  have "is_enrolled st \<and> load_embeddings st = Some (Mat rows) \<and>
      decode_image env request_image = Inr bs \<longrightarrow>
      verify env now request_image st =
        SuccessResponse (verify_message env best py_0_6)
          (Some (VerifyData (fle (Finite py_0_6) best) best py_0_6))"
    by (simp add: verify_def v)
  with v [of threshold] best(2,3) show ?thesis by auto
qed

lemma sample_cosine_rows:
  "spec_cosine sample_env (fin [3, 4]) (fin [1, 0]) = Finite (3 / ((1 + eps) * (5 + eps)))"
  "spec_cosine sample_env (fin [3, 4]) (fin [0, 1]) = Finite (4 / ((1 + eps) * (5 + eps)))"
proof -
  have n1: "sample_norm (fin [1, 0]) = Finite 1" "sample_norm (fin [0, 1]) = Finite 1"
    by (simp_all add: sample_norm_def fin_def float32_max_def)
  have e: "1 + eps \<noteq> 0" "5 + eps \<noteq> 0" using eps_pos by auto
  have a: "spec_normalize sample_env (fin [3, 4]) = fin [3 / (5 + eps), 4 / (5 + eps)]"
    using e by (simp add: spec_normalize_def sample_env_def sample_norm_3_4) (simp add: fin_def)
  have b: "spec_normalize sample_env (fin [1, 0]) = fin [1 / (1 + eps), 0]"
    using e by (simp add: spec_normalize_def sample_env_def n1) (simp add: fin_def)
  have c: "spec_normalize sample_env (fin [0, 1]) = fin [0, 1 / (1 + eps)]"
    using e by (simp add: spec_normalize_def sample_env_def n1) (simp add: fin_def)
  show "spec_cosine sample_env (fin [3, 4]) (fin [1, 0]) = Finite (3 / ((1 + eps) * (5 + eps)))"
    by (simp add: spec_cosine_def a b) (simp add: sample_env_def sample_vdot_def reals_of_fin)
  show "spec_cosine sample_env (fin [3, 4]) (fin [0, 1]) = Finite (4 / ((1 + eps) * (5 + eps)))"
    by (simp add: spec_cosine_def a c) (simp add: sample_env_def sample_vdot_def reals_of_fin)
qed

theorem verify_best_match_witness:
  "error (process_frame sample_env ''t'' [0, 0] ''verification'') = None \<and>
   embedding (process_frame sample_env ''t'' [0, 0] ''verification'') = Some (fin [3, 4]) \<and>
   verify_face sample_env ''t'' [0, 0] (Mat [fin [1, 0], fin [0, 1]]) 0.6 =
     Inr (True, Finite (4 / ((1 + eps) * (5 + eps))),
          ''Face verified with similarity: #.####'') \<and>
   verify sample_env ''t'' ''QQ'' old_store =
     SuccessResponse ''Face verified with similarity: #.####''
       (Some (VerifyData True (Finite (4 / ((1 + eps) * (5 + eps)))) py_0_6))"
proof -
  let ?lo = "Finite (3 / ((1 + eps) * (5 + eps)))"
  let ?hi = "Finite (4 / ((1 + eps) * (5 + eps)))"
  have p: "error (process_frame sample_env ''t'' [0, 0] ''verification'') = None"
    "embedding (process_frame sample_env ''t'' [0, 0] ''verification'') = Some (fin [3, 4])"
    by (simp_all add: frame_defs sample_defs fin_def)
  have s: "is_enrolled old_store"
    "load_embeddings old_store = Some (Mat [fin [1, 0], fin [0, 1]])"
    "decode_image sample_env ''QQ'' = Inr [0, 0]"
    by (simp_all add: is_enrolled_def load_embeddings_def old_store_def decode_image_def
        sample_env_def)
  have l: "\<forall>row\<in>set [fin [1, 0], fin [0, 1]]. length row = length (fin [3, 4])"
    by (simp add: fin_def)
  have m: "map (spec_cosine sample_env (fin [3, 4])) [fin [1, 0], fin [0, 1]] = [?lo, ?hi]"
    by (simp add: sample_cosine_rows)
  have o: "fle ?lo ?hi" "\<not> fle ?hi ?lo" "fle (Finite 0.6) ?hi" "fle (Finite py_0_6) ?hi"
    by (simp_all add: eps_def py_0_6_def)
  from verify_best_match [OF p, where rows = "[fin [1, 0], fin [0, 1]]" and threshold = "0.6"
      and st = old_store and request_image = "''QQ''"] l s
  obtain best where best:
    "verify_face sample_env ''t'' [0, 0] (Mat [fin [1, 0], fin [0, 1]]) 0.6 =
       Inr (fle (Finite 0.6) best, best, verify_message sample_env best 0.6)"
    "best \<in> set [?lo, ?hi]" "\<forall>s\<in>set [?lo, ?hi]. fle s best"
    "verify sample_env ''t'' ''QQ'' old_store =
       SuccessResponse (verify_message sample_env best py_0_6)
         (Some (VerifyData (fle (Finite py_0_6) best) best py_0_6))"
    unfolding m by auto
  from best(2,3) o have "best = ?hi" by auto
  with best(1,4) o(3,4) p show ?thesis
    by (simp add: verify_message_def sample_env_def)
qed

section \<open>Enrollment store: properties\<close>

lemma np_stack_ok:
  assumes "embeddings \<noteq> []" "\<forall>e\<in>set embeddings. length e = d"
  shows "np_stack embeddings = Inr embeddings"
  using assms by (cases embeddings) (simp_all add: list_all_iff)

lemma save_enrollment_ok:
  assumes "embeddings \<noteq> []" "\<forall>e\<in>set embeddings. length e = d"
    and "savez_error os = None" "open_error os = None"
  shows "save_enrollment os t_npz t_json embeddings metadata st =
     (Inr (),
      st\<lparr>embeddings_path :=
            Stored \<lparr>npz_embeddings = embeddings, npz_version = ''1.0'', npz_timestamp = t_npz\<rparr>,
         metadata_path :=
            Stored \<lparr>md_version = ''1.0'', md_timestamp = t_json,
                    md_count = length embeddings, md_frames = metadata\<rparr>\<rparr>)"
  using assms np_stack_ok [OF assms(1,2)] by (simp add: save_enrollment_def Let_def)

text \<open>
  C7. When the embeddings are a non-empty list of vectors of one dimension and both
  files can be opened, \<^verbatim>\<open>save_enrollment\<close> returns normally, and afterwards
  \<^verbatim>\<open>load_embeddings\<close> gives the same vectors in the same order as an \<open>(N, D)\<close> matrix and
  \<^verbatim>\<open>load_metadata\<close> gives the document with \<open>count = N\<close> and the same frames in the same
  order.
\<close>

theorem save_load_roundtrip:
  assumes "embeddings \<noteq> []" "\<forall>e\<in>set embeddings. length e = d"
    and "savez_error os = None" "open_error os = None"
  shows "fst (save_enrollment os t_npz t_json embeddings metadata st) = Inr () \<and>
    load_embeddings (snd (save_enrollment os t_npz t_json embeddings metadata st)) =
      Some (Mat embeddings) \<and>
    load_metadata (snd (save_enrollment os t_npz t_json embeddings metadata st)) =
      Some \<lparr>md_version = ''1.0'', md_timestamp = t_json,
            md_count = length embeddings, md_frames = metadata\<rparr>"
  using save_enrollment_ok [OF assms]
  by (simp add: load_embeddings_def load_metadata_def)

theorem save_load_roundtrip_witness:
  "load_embeddings (snd (save_enrollment no_fault ''t1'' ''t2'' [fin [3, 4], fin [4, 3]]
       [new_meta, old_meta] old_store)) = Some (Mat [fin [3, 4], fin [4, 3]]) \<and>
   load_metadata (snd (save_enrollment no_fault ''t1'' ''t2'' [fin [3, 4], fin [4, 3]]
       [new_meta, old_meta] old_store)) =
     Some \<lparr>md_version = ''1.0'', md_timestamp = ''t2'', md_count = 2,
           md_frames = [new_meta, old_meta]\<rparr>"
  using save_load_roundtrip [of "[fin [3, 4], fin [4, 3]]" 2 no_fault "''t1''" "''t2''"
      "[new_meta, old_meta]" old_store]
  by (simp add: no_fault_def fin_def)

text \<open>
  C6 (as the code has it). \<^verbatim>\<open>save_enrollment\<close> makes two writes in place, the embeddings
  file first and the metadata file second, and nothing couples them. When it returns
  normally, both files hold the new record, with \<open>count\<close> the number of embeddings. When
  it raises, the store is in one of four states: as before; the embeddings file
  truncated, next to the metadata file it had; the new embeddings file next to the
  metadata file it had; or the new embeddings file next to a truncated metadata file.
\<close>

theorem save_enrollment_two_writes:
  "(case save_enrollment os t_npz t_json embeddings metadata st of
      (Inr u, st') \<Rightarrow>
        embeddings_path st' =
          Stored \<lparr>npz_embeddings = embeddings, npz_version = ''1.0'', npz_timestamp = t_npz\<rparr> \<and>
        metadata_path st' =
          Stored \<lparr>md_version = ''1.0'', md_timestamp = t_json,
                  md_count = length embeddings, md_frames = metadata\<rparr>
    | (Inl e, st') \<Rightarrow>
        st' = st \<or>
        (savez_error os = Some (DuringWrite e) \<and> st' = st\<lparr>embeddings_path := Unreadable\<rparr>) \<or>
        (open_error os = Some (BeforeWrite e) \<and>
         st' = st\<lparr>embeddings_path :=
                 Stored \<lparr>npz_embeddings = embeddings, npz_version = ''1.0'',
                         npz_timestamp = t_npz\<rparr>\<rparr>) \<or>
        (open_error os = Some (DuringWrite e) \<and>
         st' = st\<lparr>embeddings_path :=
                 Stored \<lparr>npz_embeddings = embeddings, npz_version = ''1.0'',
                         npz_timestamp = t_npz\<rparr>,
               metadata_path := Unreadable\<rparr>))"
  by (cases embeddings)
     (auto simp: save_enrollment_def Let_def split: option.splits if_splits fault.splits)

theorem save_enrollment_two_writes_witness:
  "save_enrollment no_fault ''t1'' ''t2'' [fin [3, 4], fin [4, 3]] [new_meta, old_meta]
      old_store =
     (Inr (),
      \<lparr>embeddings_path =
         Stored \<lparr>npz_embeddings = [fin [3, 4], fin [4, 3]], npz_version = ''1.0'',
                 npz_timestamp = ''t1''\<rparr>,
       metadata_path =
         Stored \<lparr>md_version = ''1.0'', md_timestamp = ''t2'', md_count = 2,
                 md_frames = [new_meta, old_meta]\<rparr>\<rparr>) \<and>
   save_enrollment disk_full ''t1'' ''t2'' [fin [3, 4], fin [4, 3]] [new_meta, old_meta]
      old_store =
     (Inl ''No space left on device'',
      \<lparr>embeddings_path =
         Stored \<lparr>npz_embeddings = [fin [3, 4], fin [4, 3]], npz_version = ''1.0'',
                 npz_timestamp = ''t1''\<rparr>,
       metadata_path = Unreadable\<rparr>)"
  using save_enrollment_two_writes [where os = no_fault and t_npz = "''t1''"
      and t_json = "''t2''" and embeddings = "[fin [3, 4], fin [4, 3]]"
      and metadata = "[new_meta, old_meta]" and st = old_store]
    save_enrollment_two_writes [where os = disk_full and t_npz = "''t1''"
      and t_json = "''t2''" and embeddings = "[fin [3, 4], fin [4, 3]]"
      and metadata = "[new_meta, old_meta]" and st = old_store]
  by (simp add: save_enrollment_def no_fault_def disk_full_def old_store_def Let_def fin_def)

text \<open>
  C6 (as stated) fails: with a metadata file that cannot be opened for writing, a save of
  two embeddings over an enrollment of two others raises after the embeddings file is
  rewritten. The store then holds the new embeddings next to the old metadata; the
  count of the old metadata equals the number of new embeddings and both files carry
  the version 1.0, so neither tells the partial write from a complete one.
\<close>

theorem save_enrollment_partial_counterexample:
  "save_enrollment metadata_not_writable ''t1'' ''t2'' [fin [3, 4], fin [4, 3]]
      [new_meta, new_meta] old_store =
     (Inl ''Permission denied'',
      \<lparr>embeddings_path =
         Stored \<lparr>npz_embeddings = [fin [3, 4], fin [4, 3]], npz_version = ''1.0'',
                 npz_timestamp = ''t1''\<rparr>,
       metadata_path =
         Stored \<lparr>md_version = ''1.0'', md_timestamp = ''yesterday'', md_count = 2,
                 md_frames = [old_meta, old_meta]\<rparr>\<rparr>) \<and>
   load_metadata old_store =
     Some \<lparr>md_version = ''1.0'', md_timestamp = ''yesterday'', md_count = 2,
           md_frames = [old_meta, old_meta]\<rparr> \<and>
   load_embeddings old_store = Some (Mat [fin [1, 0], fin [0, 1]]) \<and>
   new_meta \<noteq> old_meta"
  by (simp add: save_enrollment_def metadata_not_writable_def old_store_def Let_def
      load_metadata_def load_embeddings_def new_meta_def old_meta_def fin_def)

section \<open>Enrollment: properties\<close>

lemma enroll_step_result:
  "enroll_step env clock p (ve, vm, errs) =
     (case frame_result env clock p of
        None \<Rightarrow> (ve, vm, errs)
      | Some (Inl e) \<Rightarrow> (ve, vm, errs @ [e])
      | Some (Inr r) \<Rightarrow> (ve @ List.map_filter embedding [r], vm @ [meta_of r], errs))"
  by (cases p)
     (simp add: enroll_step_def frame_result_def Let_def split: sum.splits option.splits)

lemma fold_enroll_step:
  "fold (enroll_step env clock) ps (ve, vm, errs) =
     (ve @ List.map_filter embedding
             (List.map_filter (\<lambda>r. case r of Inl e \<Rightarrow> None | Inr x \<Rightarrow> Some x)
                (List.map_filter (frame_result env clock) ps)),
      vm @ map meta_of
             (List.map_filter (\<lambda>r. case r of Inl e \<Rightarrow> None | Inr x \<Rightarrow> Some x)
                (List.map_filter (frame_result env clock) ps)),
      errs @ List.map_filter (\<lambda>r. case r of Inl e \<Rightarrow> Some e | Inr x \<Rightarrow> None)
                (List.map_filter (frame_result env clock) ps))"
proof (induction ps arbitrary: ve vm errs)
  case Nil
  show ?case by simp
next
  case (Cons p ps)
  show ?case
  proof (cases "frame_result env clock p")
    case None
    then show ?thesis by (simp add: enroll_step_result Cons)
  next
    case (Some y)
    then show ?thesis
      by (cases y) (simp_all add: enroll_step_result Cons split: option.splits)
  qed
qed

lemma set_map_filterD:
  "y \<in> set (List.map_filter f xs) \<Longrightarrow> \<exists>x\<in>set xs. f x = Some y"
  by (induction xs) (auto split: option.splits)

lemma enroll_loop:
  "fold (enroll_step env clock) (enumerate 0 frames) ([], [], []) =
     (accepted_embeddings env clock frames, map meta_of (accepted env clock frames),
      frame_errors env clock frames)"
  by (simp add: fold_enroll_step accepted_embeddings_def accepted_def frame_errors_def
      frame_results_def)

lemma frame_result_Some: "\<exists>y. frame_result env clock p = Some y"
proof -
  obtain idx frame where p: "p = (idx, frame)" by (cases p)
  show ?thesis
    using process_frame_exclusive
    by (auto simp: p frame_result_def Let_def split: sum.splits option.splits)
qed

lemma map_filter_total:
  assumes "\<forall>x\<in>set xs. \<exists>y. f x = Some y"
  shows "length (List.map_filter f xs) = length xs"
  using assms by (induction xs) (auto simp: map_filter_simps)

lemma length_frame_results: "length (frame_results env clock frames) = length frames"
  using frame_result_Some by (simp add: frame_results_def map_filter_total)

lemma split_sum_list:
  "length (List.map_filter (\<lambda>r. case r of Inl e \<Rightarrow> None | Inr x \<Rightarrow> Some x) rs) +
   length (List.map_filter (\<lambda>r. case r of Inl e \<Rightarrow> Some e | Inr x \<Rightarrow> None) rs) = length rs"
  by (induction rs) (auto simp: map_filter_simps split: sum.splits)

lemma accepted_plus_errors:
  "length (accepted env clock frames) + length (frame_errors env clock frames) = length frames"
  using split_sum_list [of "frame_results env clock frames"]
  by (simp add: accepted_def frame_errors_def length_frame_results)

lemma frame_result_embedding:
  "frame_result env clock p = Some (Inr r) \<Longrightarrow> \<exists>e. embedding r = Some e"
  by (cases p) (auto simp: frame_result_def Let_def split: sum.splits option.splits if_splits)

lemma accepted_have_embedding:
  "r \<in> set (accepted env clock frames) \<Longrightarrow> \<exists>e. embedding r = Some e"
proof -
  assume "r \<in> set (accepted env clock frames)"
  then obtain x where x: "x \<in> set (frame_results env clock frames)"
    "(case x of Inl e \<Rightarrow> None | Inr y \<Rightarrow> Some y) = Some r"
    unfolding accepted_def by (blast dest: set_map_filterD)
  from x(2) have "x = Inr r" by (cases x) simp_all
  with x(1) have "Inr r \<in> set (frame_results env clock frames)" by simp
  then obtain p where "frame_result env clock p = Some (Inr r)"
    unfolding frame_results_def by (blast dest: set_map_filterD)
  then show ?thesis by (rule frame_result_embedding)
qed

lemma map_filter_Some:
  assumes "\<forall>x\<in>set xs. \<exists>y. f x = Some y"
  shows "map Some (List.map_filter f xs) = map f xs"
  using assms by (induction xs) (auto simp: map_filter_simps)

lemma accepted_embeddings_paired:
  "map Some (accepted_embeddings env clock frames) = map embedding (accepted env clock frames)"
  unfolding accepted_embeddings_def
  by (rule map_filter_Some) (auto dest: accepted_have_embedding)

lemma length_accepted_embeddings:
  "length (accepted_embeddings env clock frames) = length (accepted env clock frames)"
  using arg_cong [OF accepted_embeddings_paired, of length] by simp


lemma enough_frames:
  "5 \<le> length (accepted env clock frames) \<Longrightarrow> \<not> length frames < 5"
  using accepted_plus_errors [of env clock frames] by linarith

lemma enroll_with_save:
  assumes "5 \<le> length (accepted env clock frames)"
  shows "enroll env os clock frames st =
     (case save_enrollment os (clock (length frames)) (clock (length frames + 1))
             (accepted_embeddings env clock frames)
             (map meta_of (accepted env clock frames)) st of
        (Inl e, st') \<Rightarrow> (HTTPException 500 (''Failed to save enrollment: '' @ e), st')
      | (Inr u, st') \<Rightarrow>
          (SuccessResponse
             (''Successfully enrolled '' @ str_nat (length (accepted env clock frames)) @
              '' face embeddings'')
             (Some (EnrollData (length (accepted env clock frames))
                      (map meta_of (accepted env clock frames))
                      (if frame_errors env clock frames \<noteq> []
                       then Some (frame_errors env clock frames) else None))), st'))"
  using assms enough_frames [OF assms]
  by (simp add: enroll_def enroll_loop length_accepted_embeddings split: prod.split sum.split)

lemma meta_of_entries:
  "map meta_of rs =
   map (\<lambda>r. \<lparr>m_pose = pose_label r, m_timestamp = timestamp r,
              m_confidence = confidence r, m_face_ratio = face_ratio r\<rparr>) rs"
  by (simp add: meta_of_def)

text \<open>
  C5. When at least five frames are accepted, \<^verbatim>\<open>enroll\<close> builds the record of the accepted
  frames and hands it to the store: the embeddings of the accepted frames, all of them
  and in the order of the frames, and for each of them, at the same position, the entry
  with its pose, timestamp, confidence and face ratio. Both lists have as many entries
  as there are accepted frames. The response is that of the save; when the embeddings
  have one dimension and both files are written, it is the success response and the
  store holds this record.
\<close>

theorem enroll_success:
  assumes "5 \<le> length (accepted env clock frames)"
  shows "(let acc = accepted env clock frames;
              embs = accepted_embeddings env clock frames;
              metas = map (\<lambda>r. \<lparr>m_pose = pose_label r, m_timestamp = timestamp r,
                                 m_confidence = confidence r, m_face_ratio = face_ratio r\<rparr>) acc;
              success = SuccessResponse
                (''Successfully enrolled '' @ str_nat (length acc) @ '' face embeddings'')
                (Some (EnrollData (length acc) metas
                         (if frame_errors env clock frames \<noteq> []
                          then Some (frame_errors env clock frames) else None)))
          in map Some embs = map embedding acc \<and>
             length embs = length acc \<and> length metas = length acc \<and>
             enroll env os clock frames st =
               (case save_enrollment os (clock (length frames)) (clock (length frames + 1))
                       embs metas st of
                  (Inl e, st') \<Rightarrow>
                    (HTTPException 500 (''Failed to save enrollment: '' @ e), st')
                | (Inr u, st') \<Rightarrow> (success, st')) \<and>
             ((\<forall>e\<in>set embs. length e = d) \<and> savez_error os = None \<and> open_error os = None \<longrightarrow>
                enroll env os clock frames st =
                  (success,
                   st\<lparr>embeddings_path :=
                         Stored \<lparr>npz_embeddings = embs, npz_version = ''1.0'',
                                 npz_timestamp = clock (length frames)\<rparr>,
                      metadata_path :=
                         Stored \<lparr>md_version = ''1.0'',
                                 md_timestamp = clock (length frames + 1),
                                 md_count = length acc, md_frames = metas\<rparr>\<rparr>)))"
proof -
  let ?acc = "accepted env clock frames"
  let ?embs = "accepted_embeddings env clock frames"
  have len: "length ?embs = length ?acc"
    by (rule length_accepted_embeddings)
  with assms have ne: "?embs \<noteq> []" by auto
  have saved: "(\<forall>e\<in>set ?embs. length e = d) \<and> savez_error os = None \<and> open_error os = None
    \<longrightarrow> save_enrollment os (clock (length frames)) (clock (length frames + 1)) ?embs
          (map meta_of ?acc) st =
     (Inr (),
      st\<lparr>embeddings_path :=
            Stored \<lparr>npz_embeddings = ?embs, npz_version = ''1.0'',
                    npz_timestamp = clock (length frames)\<rparr>,
         metadata_path :=
            Stored \<lparr>md_version = ''1.0'', md_timestamp = clock (length frames + 1),
                    md_count = length ?embs, md_frames = map meta_of ?acc\<rparr>\<rparr>)"
    using ne by (auto intro: save_enrollment_ok)
  show ?thesis
    unfolding Let_def meta_of_entries [symmetric]
    using enroll_with_save [OF assms, of os st] saved len
    by (auto simp: accepted_embeddings_paired)
qed

text \<open>
  C4 (as the code has it). When fewer than five frames are accepted, \<^verbatim>\<open>enroll\<close> fails
  with status 400 and leaves the store as it was. For a request of at least five frames
  the detail gives the number of accepted frames, the number of frames and the first
  five error messages; for a request of fewer than five frames the detail is that of the
  guard at the start of \<^verbatim>\<open>enroll\<close>, which gives only the number of frames.
\<close>

theorem enroll_insufficient:
  assumes "length (accepted env clock frames) < 5"
  shows "enroll env os clock frames st =
     (HTTPException 400
        (if length frames < 5
         then ''Insufficient frames: '' @ str_nat (length frames) @
              '' provided, minimum 5 required''
         else ''Insufficient valid embeddings: '' @
              str_nat (length (accepted env clock frames)) @ '' valid out of '' @
              str_nat (length frames) @ '' frames. Errors: '' @
              join ''; '' (take 5 (frame_errors env clock frames))), st)"
proof (cases "length frames < 5")
  case True
  then show ?thesis by (simp add: enroll_def)
next
  case False
  with assms accepted_plus_errors [of env clock frames]
  have "frame_errors env clock frames \<noteq> []" by auto
  with False assms show ?thesis
    by (simp add: enroll_def enroll_loop length_accepted_embeddings)
qed


lemma frame_result_sample:
  "frame_result sample_env sample_clock (i, sample_frame) =
     Some (Inr \<lparr>embedding = Some (fin [3, 6]), confidence = Some (1 / 8),
                face_area = Some 10000, face_ratio = Some (1 / 8), pose_label = ''front'',
                timestamp = sample_clock i, error = None\<rparr>)"
  by (simp add: frame_result_def decode_image_def sample_frame_def sample_env_def
      sample_face_def frame_defs fin_def)

lemma frame_result_right:
  "frame_result sample_env sample_clock (i, right_frame) =
     Some (Inr \<lparr>embedding = Some (fin [3, 4]), confidence = Some (1 / 4),
                face_area = Some 10000, face_ratio = Some (1 / 4), pose_label = ''right'',
                timestamp = sample_clock i, error = None\<rparr>)"
  by (simp add: frame_result_def decode_image_def split_comma_1_def right_frame_def
      sample_env_def sample_face_def frame_defs fin_def)

lemma frame_result_up:
  "frame_result sample_env sample_clock (i, up_frame) =
     Some (Inr \<lparr>embedding = Some (fin [3, 8]), confidence = Some (1 / 12),
                face_area = Some 10000, face_ratio = Some (1 / 12), pose_label = ''up'',
                timestamp = sample_clock i, error = None\<rparr>)"
  by (simp add: frame_result_def decode_image_def up_frame_def sample_env_def
      sample_face_def frame_defs fin_def)

lemma frame_result_bad:
  "frame_result sample_env sample_clock (i, bad_frame) =
     Some (Inl (''Frame '' @ str_nat (i + 1) @ '' (left): Processing error - Incorrect padding''))"
  by (simp add: frame_result_def decode_image_def bad_frame_def sample_env_def
      frame_prefix_def)

lemmas results_defs = accepted_embeddings_def accepted_def frame_errors_def frame_results_def
  frame_result_sample frame_result_right frame_result_up frame_result_bad

theorem enroll_success_witness:
  "5 \<le> length (accepted sample_env sample_clock five_good_one_bad) \<and>
   enroll sample_env no_fault sample_clock five_good_one_bad empty_store =
     (SuccessResponse ''Successfully enrolled 5 face embeddings''
        (Some (EnrollData 5 expected_metadata
                 (Some [''Frame 3 (left): Processing error - Incorrect padding'']))),
      \<lparr>embeddings_path =
         Stored \<lparr>npz_embeddings = [fin [3, 6], fin [3, 4], fin [3, 8], fin [3, 6], fin [3, 4]],
                 npz_version = ''1.0'', npz_timestamp = ''2024-01-01T00:00:06''\<rparr>,
       metadata_path =
         Stored \<lparr>md_version = ''1.0'', md_timestamp = ''2024-01-01T00:00:07'', md_count = 5,
                 md_frames = expected_metadata\<rparr>\<rparr>)"
proof -
  have a: "accepted sample_env sample_clock five_good_one_bad =
      [\<lparr>embedding = Some (fin [3, 6]), confidence = Some (1 / 8), face_area = Some 10000,
        face_ratio = Some (1 / 8), pose_label = ''front'', timestamp = ''2024-01-01T00:00:00'',
        error = None\<rparr>,
       \<lparr>embedding = Some (fin [3, 4]), confidence = Some (1 / 4), face_area = Some 10000,
        face_ratio = Some (1 / 4), pose_label = ''right'', timestamp = ''2024-01-01T00:00:01'',
        error = None\<rparr>,
       \<lparr>embedding = Some (fin [3, 8]), confidence = Some (1 / 12), face_area = Some 10000,
        face_ratio = Some (1 / 12), pose_label = ''up'', timestamp = ''2024-01-01T00:00:03'',
        error = None\<rparr>,
       \<lparr>embedding = Some (fin [3, 6]), confidence = Some (1 / 8), face_area = Some 10000,
        face_ratio = Some (1 / 8), pose_label = ''front'', timestamp = ''2024-01-01T00:00:04'',
        error = None\<rparr>,
       \<lparr>embedding = Some (fin [3, 4]), confidence = Some (1 / 4), face_area = Some 10000,
        face_ratio = Some (1 / 4), pose_label = ''right'', timestamp = ''2024-01-01T00:00:05'',
        error = None\<rparr>]"
    by (simp add: five_good_one_bad_def results_defs sample_clock_def str_nat.simps)
  have e: "accepted_embeddings sample_env sample_clock five_good_one_bad =
      [fin [3, 6], fin [3, 4], fin [3, 8], fin [3, 6], fin [3, 4]]"
    by (simp add: five_good_one_bad_def results_defs)
  have r: "frame_errors sample_env sample_clock five_good_one_bad =
      [''Frame 3 (left): Processing error - Incorrect padding'']"
    by (simp add: five_good_one_bad_def results_defs str_nat.simps)
  have n: "length five_good_one_bad = 6"
    by (simp add: five_good_one_bad_def)
  have five: "5 \<le> length (accepted sample_env sample_clock five_good_one_bad)"
    by (simp add: a)
  have h: "(\<forall>e\<in>set (accepted_embeddings sample_env sample_clock five_good_one_bad).
              length e = 2) \<and>
      savez_error no_fault = None \<and> open_error no_fault = None"
    by (simp add: e no_fault_def fin_def)
  note t = enroll_success [OF five, of no_fault empty_store 2, unfolded Let_def]
  from t h have "enroll sample_env no_fault sample_clock five_good_one_bad empty_store =
     (SuccessResponse
        (''Successfully enrolled '' @
         str_nat (length (accepted sample_env sample_clock five_good_one_bad)) @
         '' face embeddings'')
        (Some (EnrollData (length (accepted sample_env sample_clock five_good_one_bad))
                 (map (\<lambda>r. \<lparr>m_pose = pose_label r, m_timestamp = timestamp r,
                              m_confidence = confidence r, m_face_ratio = face_ratio r\<rparr>)
                    (accepted sample_env sample_clock five_good_one_bad))
                 (if frame_errors sample_env sample_clock five_good_one_bad \<noteq> []
                  then Some (frame_errors sample_env sample_clock five_good_one_bad)
                  else None))),
      empty_store\<lparr>embeddings_path :=
          Stored \<lparr>npz_embeddings = accepted_embeddings sample_env sample_clock five_good_one_bad,
                  npz_version = ''1.0'',
                  npz_timestamp = sample_clock (length five_good_one_bad)\<rparr>,
        metadata_path :=
          Stored \<lparr>md_version = ''1.0'',
                  md_timestamp = sample_clock (length five_good_one_bad + 1),
                  md_count = length (accepted sample_env sample_clock five_good_one_bad),
                  md_frames =
                    map (\<lambda>r. \<lparr>m_pose = pose_label r, m_timestamp = timestamp r,
                               m_confidence = confidence r, m_face_ratio = face_ratio r\<rparr>)
                      (accepted sample_env sample_clock five_good_one_bad)\<rparr>\<rparr>)"
    by blast
  then show ?thesis
    using five
    by (simp add: a e r n empty_store_def expected_metadata_def sample_clock_def
        str_nat.simps)
qed

theorem enroll_insufficient_witness:
  "length (accepted sample_env sample_clock four_good_three_bad) < 5 \<and>
   enroll sample_env no_fault sample_clock four_good_three_bad old_store =
     (HTTPException 400
        (''Insufficient valid embeddings: 4 valid out of 7 frames. Errors: '' @
         ''Frame 2 (left): Processing error - Incorrect padding; '' @
         ''Frame 4 (left): Processing error - Incorrect padding; '' @
         ''Frame 6 (left): Processing error - Incorrect padding''), old_store)"
proof -
  have a: "length (accepted sample_env sample_clock four_good_three_bad) = 4"
    by (simp add: four_good_three_bad_def results_defs)
  have r: "frame_errors sample_env sample_clock four_good_three_bad =
      [''Frame 2 (left): Processing error - Incorrect padding'',
       ''Frame 4 (left): Processing error - Incorrect padding'',
       ''Frame 6 (left): Processing error - Incorrect padding'']"
    by (simp add: four_good_three_bad_def results_defs str_nat.simps)
  have n: "length four_good_three_bad = 7"
    by (simp add: four_good_three_bad_def)
  show ?thesis
    using enroll_insufficient [of sample_env sample_clock four_good_three_bad no_fault old_store]
    by (simp add: a r n str_nat.simps)
qed

text \<open>
  C4 (as stated) fails for a request of two frames, one accepted and one in error: the
  detail is that of the guard, without the count of accepted frames and without the
  error message of the second frame.
\<close>

theorem enroll_few_frames_counterexample:
  "length (accepted sample_env sample_clock two_frames) = 1 \<and>
   frame_errors sample_env sample_clock two_frames =
     [''Frame 2 (left): Processing error - Incorrect padding''] \<and>
   enroll sample_env no_fault sample_clock two_frames empty_store =
     (HTTPException 400 ''Insufficient frames: 2 provided, minimum 5 required'', empty_store) \<and>
   ''Insufficient frames: 2 provided, minimum 5 required'' \<noteq>
   ''Insufficient valid embeddings: 1 valid out of 2 frames. Errors: '' @
   ''Frame 2 (left): Processing error - Incorrect padding''"
  by (simp add: two_frames_def results_defs enroll_def str_nat.simps)

end
